theory Spec2Isabelle
  imports Complex_Main
begin

section \<open>Numbers, buffers and audio parameters\<close>

text \<open>
  The hook \<open>useAudioProcessor\<close> computes with JavaScript numbers. They are modelled as
  \<^typ>\<open>real\<close>: every control value is finite, and on the slider values the interface
  supplies (integers from 0 to 100) the products and halves taken below are exact in
  double precision as well. Sample counts, sample rates and handles are \<^typ>\<open>nat\<close>.
  The arithmetic of the transport on times is given twice: over the reals (\<open>cutTime\<close>,
  \<open>tick\<close>, \<open>play\<close>) and with every operation rounded to IEEE double precision
  (\<open>cutTime_double\<close>, \<open>tick_double\<close>, \<open>play_double\<close>), which is what the engine computes.

  An \<open>AudioBuffer\<close> carries its channel count, its length in sample frames, its sample
  rate and one sample list per channel; its duration is length over sample rate.
\<close>

record audio_buffer =
  numberOfChannels :: nat
  buf_length :: nat
  buf_sampleRate :: nat
  channelData :: "real list list"

definition buf_duration :: "audio_buffer \<Rightarrow> real" where
  "buf_duration b = real (buf_length b) / real (buf_sampleRate b)"

text \<open>
  An \<open>AudioParam\<close> has a value and a timeline of scheduled ramps, each a target value and
  the time at which it is reached. Ramps are appended in scheduling order; the clock
  never runs backwards, so the last one is the latest. The value the parameter settles
  at is the target of the last ramp, or the plain value when nothing is scheduled.
\<close>

record audio_param =
  pvalue :: real
  automation :: "(real \<times> real) list"

definition new_param :: "real \<Rightarrow> audio_param" where
  "new_param v = \<lparr>pvalue = v, automation = []\<rparr>"

definition set_value :: "real \<Rightarrow> audio_param \<Rightarrow> audio_param" where
  "set_value v p = p\<lparr>pvalue := v\<rparr>"

definition linearRampToValueAtTime :: "real \<Rightarrow> real \<Rightarrow> audio_param \<Rightarrow> audio_param" where
  "linearRampToValueAtTime v t p = p\<lparr>automation := automation p @ [(v, t)]\<rparr>"

definition settled :: "audio_param \<Rightarrow> real" where
  "settled p = (if automation p = [] then pvalue p else fst (last (automation p)))"

section \<open>Processing stages\<close>

datatype filter_type = Lowpass | Peaking | Lowshelf | Highshelf

record biquad_filter =
  ftype :: filter_type
  frequency :: real
  qvalue :: real
  fgain :: audio_param

text \<open>A fresh \<open>BiquadFilterNode\<close>: low-pass, 350 Hz, Q 1, gain 0.\<close>

definition createBiquadFilter :: biquad_filter where
  "createBiquadFilter = \<lparr>ftype = Lowpass, frequency = 350, qvalue = 1, fgain = new_param 0\<rparr>"

record compressor_node =
  threshold :: real
  knee :: real
  ratio :: real

text \<open>A fresh \<open>DynamicsCompressorNode\<close>: threshold -24 dB, knee 30 dB, ratio 12.\<close>

definition createDynamicsCompressor :: compressor_node where
  "createDynamicsCompressor = \<lparr>threshold = - 24, knee = 30, ratio = 12\<rparr>"

text \<open>
  A buffer source keeps the arguments of its \<open>start(when, offset, duration)\<close> call and
  whether \<open>stop()\<close> has been called on it.
\<close>

record source_node =
  src_buffer :: audio_buffer
  detune :: audio_param
  started :: "(real \<times> real \<times> real) option"
  stopped :: bool

definition createBufferSource :: "audio_buffer \<Rightarrow> source_node" where
  "createBufferSource b = \<lparr>src_buffer = b, detune = new_param 0, started = None, stopped = False\<rparr>"

datatype error = RangeError | InvalidStateError | NotSupportedError

text \<open>
  \<open>start\<close> raises a RangeError on a negative argument and an InvalidStateError on a
  second call; \<open>stop\<close> raises an InvalidStateError on a node that was never started.
\<close>

definition source_start :: "real \<Rightarrow> real \<Rightarrow> real \<Rightarrow> source_node \<Rightarrow> error + source_node" where
  "source_start w off dur n =
     (if w < 0 \<or> off < 0 \<or> dur < 0 then Inl RangeError
      else if started n \<noteq> None then Inl InvalidStateError
      else Inr (n\<lparr>started := Some (w, off, dur)\<rparr>))"

definition source_stop :: "source_node \<Rightarrow> error + source_node" where
  "source_stop n =
     (if started n = None then Inl InvalidStateError else Inr (n\<lparr>stopped := True\<rparr>))"

text \<open>\<open>try { node.stop(); } catch(e) {}\<close>: an error leaves the node as it was.\<close>

definition try_stop :: "source_node \<Rightarrow> source_node" where
  "try_stop n = (case source_stop n of Inl e \<Rightarrow> n | Inr n' \<Rightarrow> n')"

text \<open>
  Connections are pairs of stage names. Source readers and wet-mix gains are created
  anew by every \<open>play\<close>, so they are numbered.
\<close>

datatype node_id =
    SourceN nat | EqN nat | BassN | TrebleN | CompressorN | RoomGainN nat
  | ReverbN | GainN | AnalyserN | DestinationN

definition connect :: "node_id \<Rightarrow> node_id \<Rightarrow> (node_id \<times> node_id) list \<Rightarrow> (node_id \<times> node_id) list" where
  "connect a b es = (if (a, b) \<in> set es then es else es @ [(a, b)])"

definition disconnect :: "node_id \<Rightarrow> (node_id \<times> node_id) list \<Rightarrow> (node_id \<times> node_id) list" where
  "disconnect a es = filter (\<lambda>e. fst e \<noteq> a) es"

section \<open>Controls and the state of the hook\<close>

text \<open>
  \<open>AudioProcessorControls\<close>. An entry of \<open>eqBands\<close> is \<open>None\<close> where the array holds
  \<open>undefined\<close>; an index past the end reads \<open>undefined\<close> as well.
\<close>

record controls =
  pitch :: real
  booster :: bool
  roomSize :: real
  fullRoom :: bool
  bass :: real
  treble :: real
  beautify :: bool
  mastered :: bool
  eqBands :: "real option list"
  cutStart :: real
  cutEnd :: real

definition eqBand :: "controls \<Rightarrow> nat \<Rightarrow> real option" where
  "eqBand c i = (if i < length (eqBands c) then eqBands c ! i else None)"

text \<open>
  The effect that creates the \<open>AudioContext\<close> assigns the context and every stage
  reference together and nothing resets one of them, so they are one optional record:
  \<open>audioContextRef.current\<close> is null exactly when \<open>audioContext\<close> is \<open>None\<close>. The record
  also holds what lives inside the context: its clock, the source readers and wet-mix
  gains created so far, and the connections.
\<close>

record audio_context =
  ctx_currentTime :: real
  ctx_suspended :: bool
  ctx_sampleRate :: nat
  gainNode :: audio_param
  bassNode :: biquad_filter
  trebleNode :: biquad_filter
  reverbNode :: "real list list"
  compressorNode :: compressor_node
  analyser_fftSize :: nat
  eqNodes :: "biquad_filter list"
  sources :: "source_node list"
  roomGains :: "audio_param list"
  edges :: "(node_id \<times> node_id) list"

text \<open>
  The refs and the React state of the hook (the analyser handle that the state also
  publishes is left out). \<open>sourceNode\<close> is the number of the current source reader
  among \<open>sources\<close>. \<open>frameQueue\<close> holds the handles of the animation
  frame callbacks that are requested and not cancelled; handles start at 1, so a
  handle is never falsy.
\<close>

record engine =
  audioContext :: "audio_context option"
  sourceNode :: "nat option"
  audioBuffer :: "audio_buffer option"
  startTime :: real
  pauseTime :: real
  animationFrame :: "nat option"
  frameQueue :: "nat list"
  frameCount :: nat
  isPlaying :: bool
  currentTime :: real
  duration :: real

definition initial_engine :: engine where
  "initial_engine =
     \<lparr>audioContext = None, sourceNode = None, audioBuffer = None, startTime = 0,
      pauseTime = 0, animationFrame = None, frameQueue = [], frameCount = 0,
      isPlaying = False, currentTime = 0, duration = 0\<rparr>"

section \<open>Reverb impulse\<close>

text \<open>
  \<open>createReverbBuffer\<close> fills two channels of \<open>sampleRate * duration\<close> samples, channel
  after channel, one call of \<open>Math.random\<close> per sample. \<open>draws k\<close> is the value the
  \<open>k\<close>-th call returns (a number from 0 up to, not including, 1); the hook only ever
  asks for whole seconds.
\<close>

definition createReverbBuffer :: "nat \<Rightarrow> nat \<Rightarrow> (nat \<Rightarrow> real) \<Rightarrow> real list list" where
  "createReverbBuffer rate dur draws =
     (let len = rate * dur in
      map (\<lambda>channel.
        map (\<lambda>i. (draws (channel * len + i) * 2 - 1) * (1 - real i / real len) ^ 4) [0..<len])
        [0..<2])"

section \<open>Initialisation and loading\<close>

definition FREQS :: "real list" where
  "FREQS = [20, 25, 63 / 2, 40, 50, 63, 80, 100, 125, 160, 200, 250,
            315, 400, 500, 630, 800, 1000, 1250, 1600, 2000, 2500, 3150]"

definition createEqNode :: "real \<Rightarrow> biquad_filter" where
  "createEqNode freq =
     createBiquadFilter\<lparr>ftype := Peaking, frequency := freq, qvalue := 3 / 2,
                        fgain := set_value 0 (fgain createBiquadFilter)\<rparr>"

text \<open>
  The mount effect, where the platform offers an \<open>AudioContext\<close>; its sample rate and
  whether it starts suspended are the platform's choice.
\<close>

definition initAudio :: "nat \<Rightarrow> bool \<Rightarrow> (nat \<Rightarrow> real) \<Rightarrow> engine" where
  "initAudio rate susp draws =
     initial_engine\<lparr>audioContext := Some
       \<lparr>ctx_currentTime = 0, ctx_suspended = susp, ctx_sampleRate = rate,
        gainNode = new_param 1,
        bassNode = createBiquadFilter\<lparr>ftype := Lowshelf, frequency := 200\<rparr>,
        trebleNode = createBiquadFilter\<lparr>ftype := Highshelf, frequency := 3000\<rparr>,
        reverbNode = createReverbBuffer rate 2 draws,
        compressorNode = createDynamicsCompressor,
        analyser_fftSize = 2048,
        eqNodes = map createEqNode FREQS,
        sources = [], roomGains = [], edges = []\<rparr>\<rparr>"

section \<open>Parameter mapper\<close>

definition upd_source :: "nat \<Rightarrow> (source_node \<Rightarrow> source_node) \<Rightarrow> audio_context \<Rightarrow> audio_context" where
  "upd_source i f ctx =
     (if i < length (sources ctx) then ctx\<lparr>sources := (sources ctx)[i := f (sources ctx ! i)]\<rparr>
      else ctx)"

definition ramp_gain :: "real \<Rightarrow> real \<Rightarrow> biquad_filter \<Rightarrow> biquad_filter" where
  "ramp_gain v t node = node\<lparr>fgain := linearRampToValueAtTime v t (fgain node)\<rparr>"

text \<open>The \<open>forEach\<close> over the band stages: a band without a defined entry is skipped.\<close>

definition updateEqBands :: "controls \<Rightarrow> real \<Rightarrow> biquad_filter list \<Rightarrow> biquad_filter list" where
  "updateEqBands c now nodes =
     map (\<lambda>i. case eqBand c i of
                Some v \<Rightarrow> ramp_gain ((v - 50) / 2) (now + 1 / 10) (nodes ! i)
              | None \<Rightarrow> nodes ! i)
         [0..<length nodes]"

definition updateCompressor :: "controls \<Rightarrow> compressor_node \<Rightarrow> compressor_node" where
  "updateCompressor c cn =
     (if beautify c \<or> mastered c then
        cn\<lparr>threshold := (if mastered c then - 20 else - 24),
             knee := 30,
             ratio := (if mastered c then 20 else 12)\<rparr>
      else cn\<lparr>threshold := 0, ratio := 1\<rparr>)"

text \<open>
  The body of \<open>updateParams\<close> behind its guard, on the stages of the context; \<open>src\<close> is
  \<open>sourceNodeRef.current\<close>. Pitch, booster, the two shelves and the bands are ramped over
  a tenth of a second, the compressor is written at once.
\<close>

definition applyParams :: "controls \<Rightarrow> nat option \<Rightarrow> audio_context \<Rightarrow> audio_context" where
  "applyParams c src ctx =
     (let now = ctx_currentTime ctx;
          ctx1 = (case src of
                    None \<Rightarrow> ctx
                  | Some i \<Rightarrow>
                      upd_source i (\<lambda>n. n\<lparr>detune :=
                        linearRampToValueAtTime ((pitch c - 50) * 24) (now + 1 / 10) (detune n)\<rparr>) ctx)
      in ctx1\<lparr>gainNode :=
                linearRampToValueAtTime (1 + (if booster c then 3 / 2 else 0)) (now + 1 / 10)
                  (gainNode ctx1),
              bassNode := ramp_gain ((bass c - 50) / 2) (now + 1 / 10) (bassNode ctx1),
              trebleNode := ramp_gain ((treble c - 50) / 2) (now + 1 / 10) (trebleNode ctx1),
              eqNodes := updateEqBands c now (eqNodes ctx1),
              compressorNode := updateCompressor c (compressorNode ctx1)\<rparr>)"

definition updateParams :: "controls \<Rightarrow> engine \<Rightarrow> engine" where
  "updateParams c s =
     (case audioContext s of
        None \<Rightarrow> s
      | Some ctx \<Rightarrow> s\<lparr>audioContext := Some (applyParams c (sourceNode s) ctx)\<rparr>)"

section \<open>Transport\<close>

definition cancelAnimationFrame :: "nat \<Rightarrow> engine \<Rightarrow> engine" where
  "cancelAnimationFrame h s = s\<lparr>frameQueue := removeAll h (frameQueue s)\<rparr>"

definition requestAnimationFrame :: "engine \<Rightarrow> engine" where
  "requestAnimationFrame s =
     (let h = Suc (frameCount s)
      in s\<lparr>frameCount := h, frameQueue := frameQueue s @ [h], animationFrame := Some h\<rparr>)"

text \<open>
  \<open>stop\<close>: halt the source reader inside a \<open>try\<close>, drop the reference, reset the resume
  position and the published state, cancel the pending poll.
\<close>

definition stop :: "engine \<Rightarrow> engine" where
  "stop s =
     (let s1 = (case sourceNode s of
                  None \<Rightarrow> s
                | Some i \<Rightarrow>
                    s\<lparr>audioContext := map_option (upd_source i try_stop) (audioContext s),
                      sourceNode := None\<rparr>);
          s2 = s1\<lparr>pauseTime := 0, isPlaying := False, currentTime := 0\<rparr>
      in case animationFrame s2 of
           None \<Rightarrow> s2
         | Some h \<Rightarrow> cancelAnimationFrame h s2)"

text \<open>
  \<open>pause\<close> calls \<open>stop()\<close> on the source reader outside any \<open>try\<close>. A reference always
  names a reader that was created, so an index out of range is left alone.
\<close>

definition pause :: "engine \<Rightarrow> error + engine" where
  "pause s =
     (case (sourceNode s, audioContext s) of
        (Some i, Some ctx) \<Rightarrow>
          if i < length (sources ctx) then
            (case source_stop (sources ctx ! i) of
               Inl e \<Rightarrow> Inl e
             | Inr n \<Rightarrow>
                 let s1 = s\<lparr>audioContext := Some (ctx\<lparr>sources := (sources ctx)[i := n]\<rparr>),
                            pauseTime := ctx_currentTime ctx - startTime s,
                            isPlaying := False\<rparr>
                 in Inr (case animationFrame s1 of
                           None \<Rightarrow> s1
                         | Some h \<Rightarrow> cancelAnimationFrame h s1))
          else Inr s
      | _ \<Rightarrow> Inr s)"

text \<open>
  \<open>loadFile\<close> with the buffer the decoder returns (a failed decode rejects after
  \<open>stop()\<close> has run and stores nothing).
\<close>

definition loadFile :: "audio_buffer \<Rightarrow> engine \<Rightarrow> engine" where
  "loadFile decodedBuffer s =
     (case audioContext s of
        None \<Rightarrow> s
      | Some ctx \<Rightarrow>
          (stop s)\<lparr>audioBuffer := Some decodedBuffer, duration := buf_duration decodedBuffer,
                   currentTime := 0, pauseTime := 0\<rparr>)"

text \<open>
  One run of the polling callback of a \<open>play\<close> call with the given trim window, in exact
  arithmetic: right after \<open>play\<close> the difference \<open>clock - startTime\<close> is the start offset
  itself. In double precision the difference can come out one unit in the last place
  off, which decides the comparison when the offset and \<open>cutEndTime\<close> coincide;
  \<open>tick_double\<close> below is the poll with that rounding.
\<close>

definition tick :: "real \<Rightarrow> real \<Rightarrow> engine \<Rightarrow> engine" where
  "tick cutStartTime cutEndTime s =
     (case sourceNode s of
        None \<Rightarrow> s
      | Some i \<Rightarrow>
          (case audioContext s of
             None \<Rightarrow> s
           | Some ctx \<Rightarrow>
               let current = ctx_currentTime ctx - startTime s
               in if current \<ge> cutEndTime then (stop s)\<lparr>pauseTime := cutStartTime\<rparr>
                  else requestAnimationFrame (s\<lparr>currentTime := current\<rparr>)))"

definition cutTime :: "real \<Rightarrow> audio_buffer \<Rightarrow> real" where
  "cutTime percent buf = (percent / 100) * buf_duration buf"

definition startOffset :: "real \<Rightarrow> real \<Rightarrow> real \<Rightarrow> real" where
  "startOffset pauseT cutStartTime cutEndTime =
     (let so1 = (if pauseT < cutStartTime then cutStartTime else pauseT)
      in if so1 \<ge> cutEndTime then cutStartTime else so1)"

text \<open>The \<open>forEach\<close> that chains the band stages behind \<open>lastNode\<close>.\<close>

fun chain :: "node_id \<Rightarrow> node_id list \<Rightarrow> (node_id \<times> node_id) list
              \<Rightarrow> node_id \<times> (node_id \<times> node_id) list" where
  "chain lastNode [] es = (lastNode, es)"
| "chain lastNode (n # ns) es = chain n ns (connect lastNode n es)"

text \<open>
  The rewiring of \<open>play\<close> for source reader \<open>k\<close>, wet-mix gain \<open>r\<close> and \<open>m\<close> band
  stages: disconnect the persistent stages, then connect in signal order.
\<close>

definition reconnectGraph :: "nat \<Rightarrow> nat \<Rightarrow> nat \<Rightarrow> (node_id \<times> node_id) list
                              \<Rightarrow> (node_id \<times> node_id) list" where
  "reconnectGraph k r m es =
     (let es1 = fold disconnect (map EqN [0..<m] @ [BassN, TrebleN, CompressorN, GainN, ReverbN]) es;
          (lastNode, es2) = chain (SourceN k) (map EqN [0..<m]) es1
      in fold (\<lambda>(a, b). connect a b)
           [(lastNode, BassN), (BassN, TrebleN), (TrebleN, CompressorN),
            (CompressorN, RoomGainN r), (RoomGainN r, ReverbN), (ReverbN, GainN),
            (CompressorN, GainN), (GainN, AnalyserN), (AnalyserN, DestinationN)] es2)"

definition wetLevel :: "controls \<Rightarrow> real" where
  "wetLevel c = (roomSize c / 100) * (if fullRoom c then 1 else 1 / 2)"

text \<open>
  \<open>play\<close>. The clock of the context does not advance during the call, so the first
  poll, which runs inside it, reads the same \<open>currentTime\<close> that \<open>startTimeRef\<close> was computed
  from. An exception of \<open>source.start\<close> leaves the call at that point; the model returns
  the error.
\<close>

definition play :: "controls \<Rightarrow> engine \<Rightarrow> error + engine" where
  "play c s =
     (case (audioContext s, audioBuffer s) of
        (Some ctx0, Some buf) \<Rightarrow>
          let ctx1 = ctx0\<lparr>ctx_suspended := False\<rparr>;
              ctx2 = (case sourceNode s of
                        None \<Rightarrow> ctx1
                      | Some i \<Rightarrow> (upd_source i try_stop ctx1)
                                    \<lparr>edges := disconnect (SourceN i) (edges ctx1)\<rparr>);
              k = length (sources ctx2);
              source = (createBufferSource buf)
                         \<lparr>detune := set_value ((pitch c - 50) * 24) (detune (createBufferSource buf))\<rparr>;
              cutStartTime = cutTime (cutStart c) buf;
              cutEndTime = cutTime (cutEnd c) buf;
              so = startOffset (pauseTime s) cutStartTime cutEndTime;
              r = length (roomGains ctx2);
              ctx3 = ctx2\<lparr>sources := sources ctx2 @ [source],
                         roomGains := roomGains ctx2 @ [set_value (wetLevel c) (new_param 1)],
                         edges := reconnectGraph k r (length (eqNodes ctx2)) (edges ctx2)\<rparr>;
              s1 = updateParams c (s\<lparr>audioContext := Some ctx3, sourceNode := Some k\<rparr>)
          in (case audioContext s1 of
                None \<Rightarrow> Inr s1
              | Some ctx4 \<Rightarrow>
                  (case source_start 0 so (max 0 (cutEndTime - so)) (sources ctx4 ! k) of
                     Inl e \<Rightarrow> Inl e
                   | Inr n \<Rightarrow>
                       let s2 = s1\<lparr>audioContext := Some (ctx4\<lparr>sources := (sources ctx4)[k := n]\<rparr>),
                                  startTime := ctx_currentTime ctx4 - so,
                                  isPlaying := True\<rparr>
                       in Inr (tick cutStartTime cutEndTime s2)))
      | _ \<Rightarrow> Inr s)"


section \<open>Time arithmetic in double precision\<close>

text \<open>
  JavaScript numbers are IEEE 754 doubles: every arithmetic result is rounded to the
  nearest number with a 53-bit significand, a tie going to the even significand.
  \<open>pow2 e\<close> is \<open>2\<close> to the \<open>e\<close>; \<open>binade x\<close> is the exponent \<open>e\<close> with
  \<open>2^e \<le> |x| < 2^(e+1)\<close>, searched downwards from 1023 and not below -1022, where the
  subnormal numbers begin; \<open>round_double\<close> rounds to the nearest multiple of
  \<open>2^(e-52)\<close>. Overflow to infinity is left out: no time in this program comes near \<open>2^1024\<close>.
\<close>

definition pow2 :: "int \<Rightarrow> real" where
  "pow2 e = (if 0 \<le> e then 2 ^ nat e else 1 / 2 ^ nat (- e))"

definition round_even :: "real \<Rightarrow> int" where
  "round_even q =
     (let f = \<lfloor>q\<rfloor>; r = q - of_int f
      in if r < 1 / 2 then f
         else if 1 / 2 < r then f + 1
         else if even f then f else f + 1)"

fun find_exponent :: "nat \<Rightarrow> int \<Rightarrow> real \<Rightarrow> int" where
  "find_exponent 0 e a = e"
| "find_exponent (Suc n) e a = (if pow2 e \<le> a then e else find_exponent n (e - 1) a)"

definition binade :: "real \<Rightarrow> int" where
  "binade x = find_exponent 2045 1023 \<bar>x\<bar>"

definition round_double :: "real \<Rightarrow> real" where
  "round_double x = (let u = pow2 (binade x - 52) in of_int (round_even (x / u)) * u)"

text \<open>
  \<open>AudioBuffer.duration\<close> and the two cut times as the engine computes them: one
  rounding per division, multiplication and subtraction.
\<close>

definition buf_duration_double :: "audio_buffer \<Rightarrow> real" where
  "buf_duration_double b = round_double (real (buf_length b) / real (buf_sampleRate b))"

definition cutTime_double :: "real \<Rightarrow> audio_buffer \<Rightarrow> real" where
  "cutTime_double percent buf =
     round_double (round_double (percent / 100) * buf_duration_double buf)"

text \<open>The polling callback with the clock difference rounded.\<close>

definition tick_double :: "real \<Rightarrow> real \<Rightarrow> engine \<Rightarrow> engine" where
  "tick_double cutStartTime cutEndTime s =
     (case sourceNode s of
        None \<Rightarrow> s
      | Some i \<Rightarrow>
          (case audioContext s of
             None \<Rightarrow> s
           | Some ctx \<Rightarrow>
               let current = round_double (ctx_currentTime ctx - startTime s)
               in if current \<ge> cutEndTime then (stop s)\<lparr>pauseTime := cutStartTime\<rparr>
                  else requestAnimationFrame (s\<lparr>currentTime := current\<rparr>)))"

text \<open>
  \<open>play\<close> with its arithmetic on times rounded: the cut times, the length handed to
  \<open>source.start\<close>, \<open>startTimeRef\<close> and the poll. Everything else is as in \<open>play\<close>.
\<close>

definition play_double :: "controls \<Rightarrow> engine \<Rightarrow> error + engine" where
  "play_double c s =
     (case (audioContext s, audioBuffer s) of
        (Some ctx0, Some buf) \<Rightarrow>
          let ctx1 = ctx0\<lparr>ctx_suspended := False\<rparr>;
              ctx2 = (case sourceNode s of
                        None \<Rightarrow> ctx1
                      | Some i \<Rightarrow> (upd_source i try_stop ctx1)
                                    \<lparr>edges := disconnect (SourceN i) (edges ctx1)\<rparr>);
              k = length (sources ctx2);
              source = (createBufferSource buf)
                         \<lparr>detune := set_value ((pitch c - 50) * 24) (detune (createBufferSource buf))\<rparr>;
              cutStartTime = cutTime_double (cutStart c) buf;
              cutEndTime = cutTime_double (cutEnd c) buf;
              so = startOffset (pauseTime s) cutStartTime cutEndTime;
              r = length (roomGains ctx2);
              ctx3 = ctx2\<lparr>sources := sources ctx2 @ [source],
                         roomGains := roomGains ctx2 @ [set_value (wetLevel c) (new_param 1)],
                         edges := reconnectGraph k r (length (eqNodes ctx2)) (edges ctx2)\<rparr>;
              s1 = updateParams c (s\<lparr>audioContext := Some ctx3, sourceNode := Some k\<rparr>)
          in (case audioContext s1 of
                None \<Rightarrow> Inr s1
              | Some ctx4 \<Rightarrow>
                  (case source_start 0 so (max 0 (round_double (cutEndTime - so))) (sources ctx4 ! k) of
                     Inl e \<Rightarrow> Inl e
                   | Inr n \<Rightarrow>
                       let s2 = s1\<lparr>audioContext := Some (ctx4\<lparr>sources := (sources ctx4)[k := n]\<rparr>),
                                  startTime := round_double (ctx_currentTime ctx4 - so),
                                  isPlaying := True\<rparr>
                       in Inr (tick_double cutStartTime cutEndTime s2)))
      | _ \<Rightarrow> Inr s)"

section \<open>Offline render\<close>

text \<open>
  What \<open>exportAudio\<close> builds in its \<open>OfflineAudioContext\<close> and hands to
  \<open>startRendering\<close>; the rendered samples are the platform's function of it.
\<close>

record offline_graph =
  off_channels :: nat
  off_length :: nat
  off_sampleRate :: nat
  off_source :: source_node
  off_bass :: biquad_filter
  off_treble :: biquad_filter
  off_compressor :: compressor_node
  off_reverb :: "real list list"
  off_roomGain :: audio_param
  off_mainGain :: audio_param
  off_edges :: "(node_id \<times> node_id) list"

text \<open>
  The constructor of \<open>OfflineAudioContext\<close> refuses a length below one frame with a
  NotSupportedError. The result is \<open>None\<close> where the source returns \<open>null\<close>.
\<close>

definition exportAudio :: "controls \<Rightarrow> engine \<Rightarrow> (nat \<Rightarrow> real) \<Rightarrow> error + offline_graph option" where
  "exportAudio c s draws =
     (case audioBuffer s of
        None \<Rightarrow> Inr None
      | Some buf \<Rightarrow>
          let cutStartTime = cutTime (cutStart c) buf;
              cutEndTime = cutTime (cutEnd c) buf;
              renderDuration = cutEndTime - cutStartTime
          in if renderDuration * 44100 < 1 then Inl NotSupportedError
             else
               let source = (createBufferSource buf)
                     \<lparr>detune := set_value ((pitch c - 50) * 24) (detune (createBufferSource buf))\<rparr>;
                   bassF = createBiquadFilter
                     \<lparr>ftype := Lowshelf, frequency := 200,
                      fgain := set_value ((bass c - 50) / 2) (fgain createBiquadFilter)\<rparr>;
                   trebleF = createBiquadFilter
                     \<lparr>ftype := Highshelf, frequency := 3000,
                      fgain := set_value ((treble c - 50) / 2) (fgain createBiquadFilter)\<rparr>;
                   compressor = (if beautify c
                                 then createDynamicsCompressor\<lparr>threshold := - 24, knee := 30, ratio := 12\<rparr>
                                 else createDynamicsCompressor\<lparr>threshold := 0, ratio := 1\<rparr>);
                   reverb = createReverbBuffer 44100 2 draws;
                   roomGain = set_value (wetLevel c) (new_param 1);
                   mainGain = set_value (if booster c then 3 / 2 else 1) (new_param 1);
                   es = fold (\<lambda>(a, b). connect a b)
                          [(SourceN 0, BassN), (BassN, TrebleN), (TrebleN, CompressorN),
                           (CompressorN, RoomGainN 0), (RoomGainN 0, ReverbN), (ReverbN, GainN),
                           (CompressorN, GainN), (GainN, DestinationN)] []
               in (case source_start 0 cutStartTime renderDuration source of
                     Inl e \<Rightarrow> Inl e
                   | Inr n \<Rightarrow>
                       Inr (Some \<lparr>off_channels = 2,
                                  off_length = nat \<lfloor>renderDuration * 44100\<rfloor>,
                                  off_sampleRate = 44100,
                                  off_source = n, off_bass = bassF, off_treble = trebleF,
                                  off_compressor = compressor, off_reverb = reverb,
                                  off_roomGain = roomGain, off_mainGain = mainGain,
                                  off_edges = es\<rparr>)))"

section \<open>WAV encoder\<close>

text \<open>
  \<open>audioBufferToWav\<close> writes through a \<open>DataView\<close> into a zeroed \<open>ArrayBuffer\<close>, here a
  list of bytes. \<open>le_bytes n v\<close> is the \<open>n\<close> low bytes of \<open>v\<close>, lowest first, which is
  what a little-endian \<open>setUint16\<close>/\<open>setUint32\<close> stores; \<open>store\<close> overwrites the bytes
  from a position on. Every position written below lies inside the buffer.
\<close>

definition le_bytes :: "nat \<Rightarrow> nat \<Rightarrow> nat list" where
  "le_bytes n v = map (\<lambda>j. (v div 256 ^ j) mod 256) [0..<n]"

definition store :: "nat \<Rightarrow> nat list \<Rightarrow> nat list \<Rightarrow> nat list" where
  "store p bs view = take p view @ bs @ drop (p + length bs) view"

text \<open>The two local helpers: write at \<open>pos\<close> and advance \<open>pos\<close>.\<close>

definition setUint16 :: "nat \<Rightarrow> nat list \<times> nat \<Rightarrow> nat list \<times> nat" where
  "setUint16 d vp = (case vp of (view, pos) \<Rightarrow> (store pos (le_bytes 2 d) view, pos + 2))"

definition setUint32 :: "nat \<Rightarrow> nat list \<times> nat \<Rightarrow> nat list \<times> nat" where
  "setUint32 d vp = (case vp of (view, pos) \<Rightarrow> (store pos (le_bytes 4 d) view, pos + 4))"

text \<open>\<open>x|0\<close>: drop the fraction, then wrap into 32 signed bits.\<close>

definition toInt32 :: "real \<Rightarrow> int" where
  "toInt32 x =
     (let t = (if x < 0 then \<lceil>x\<rceil> else \<lfloor>x\<rfloor>);
          m = t mod 2 ^ 32
      in if m \<ge> 2 ^ 31 then m - 2 ^ 32 else m)"

text \<open>\<open>view.setInt16(p, v, true)\<close> stores \<open>v\<close> modulo \<open>2^16\<close>.\<close>

definition setInt16 :: "nat \<Rightarrow> int \<Rightarrow> nat list \<Rightarrow> nat list" where
  "setInt16 p v view = store p (le_bytes 2 (nat (v mod 65536))) view"

text \<open>
  \<open>channels[i][pos]\<close>. A well-formed buffer has \<open>numberOfChannels\<close> channels of
  \<open>buf_length\<close> samples, so the read is in range; a read past the end of a channel
  gives \<open>undefined\<close>, which the arithmetic turns into \<open>NaN\<close> and \<open>|0\<close> into 0.
\<close>

definition sample_at :: "audio_buffer \<Rightarrow> nat \<Rightarrow> nat \<Rightarrow> real option" where
  "sample_at b i p =
     (if i < length (channelData b) \<and> p < length (channelData b ! i)
      then Some (channelData b ! i ! p) else None)"

definition encode_sample :: "real option \<Rightarrow> int" where
  "encode_sample x =
     (case x of
        None \<Rightarrow> 0
      | Some v \<Rightarrow>
          let sample = max (- 1) (min 1 v)
          in toInt32 (if 1 / 2 + sample < 0 then sample * 32768 else sample * 32767))"

text \<open>The inner \<open>for\<close> over the channels of frame \<open>pos\<close>.\<close>

definition encode_frame :: "audio_buffer \<Rightarrow> nat \<Rightarrow> nat list \<times> nat \<Rightarrow> nat list \<times> nat" where
  "encode_frame b pos vo =
     fold (\<lambda>i (view, offset). (setInt16 (44 + offset) (encode_sample (sample_at b i pos)) view, offset + 2))
          [0..<numberOfChannels b] vo"

text \<open>The \<open>while (pos < buffer.length)\<close> loop.\<close>

function encode_frames :: "audio_buffer \<Rightarrow> nat \<Rightarrow> nat list \<times> nat \<Rightarrow> nat list" where
  "encode_frames b pos vo =
     (if pos < buf_length b then encode_frames b (pos + 1) (encode_frame b pos vo)
      else fst vo)"
  by pat_completeness auto
termination
  by (relation "measure (\<lambda>(b, pos, vo). buf_length b - pos)") auto

declare encode_frames.simps [simp del]

definition wav_header :: "audio_buffer \<Rightarrow> nat list \<times> nat \<Rightarrow> nat list \<times> nat" where
  "wav_header b vp =
     (let numOfChan = numberOfChannels b;
          len = buf_length b * numOfChan * 2 + 44;
          vp1 = setUint32 0x46464952 vp;
          vp2 = setUint32 (len - 8) vp1;
          vp3 = setUint32 0x45564157 vp2;
          vp4 = setUint32 0x20746d66 vp3;
          vp5 = setUint32 16 vp4;
          vp6 = setUint16 1 vp5;
          vp7 = setUint16 numOfChan vp6;
          vp8 = setUint32 (buf_sampleRate b) vp7;
          vp9 = setUint32 (buf_sampleRate b * 2 * numOfChan) vp8;
          vp10 = setUint16 (numOfChan * 2) vp9;
          vp11 = setUint16 16 vp10;
          vp12 = setUint32 0x61746164 vp11
      in setUint32 (len - snd vp12 - 4) vp12)"

text \<open>
  The encoder. The position \<open>pos\<close> that the header writes advanced is the same variable
  that the sample loop counts frames with.
\<close>

definition audioBufferToWav :: "audio_buffer \<Rightarrow> nat list" where
  "audioBufferToWav b =
     (let numOfChan = numberOfChannels b;
          len = buf_length b * numOfChan * 2 + 44;
          (view, pos) = wav_header b (replicate len 0, 0)
      in encode_frames b pos (view, 0))"

section \<open>Example data\<close>

text \<open>
  A ten-second mono source at 44.1 kHz, a control state with every band at the neutral
  value and the trim window from 20 to 80 percent, and the hook after mounting and
  loading that source.
\<close>

definition example_buffer :: audio_buffer where
  "example_buffer = \<lparr>numberOfChannels = 1, buf_length = 441000, buf_sampleRate = 44100,
                     channelData = [replicate 441000 0]\<rparr>"

definition example_controls :: controls where
  "example_controls =
     \<lparr>pitch = 60, booster = True, roomSize = 40, fullRoom = False, bass = 70, treble = 30,
      beautify = True, mastered = False, eqBands = replicate 23 (Some 50),
      cutStart = 20, cutEnd = 80\<rparr>"

definition example_context :: audio_context where
  "example_context =
     \<lparr>ctx_currentTime = 0, ctx_suspended = False, ctx_sampleRate = 44100,
      gainNode = new_param 1,
      bassNode = createBiquadFilter\<lparr>ftype := Lowshelf, frequency := 200\<rparr>,
      trebleNode = createBiquadFilter\<lparr>ftype := Highshelf, frequency := 3000\<rparr>,
      reverbNode = createReverbBuffer 44100 2 (\<lambda>k. 1 / 2),
      compressorNode = createDynamicsCompressor,
      analyser_fftSize = 2048,
      eqNodes = map createEqNode FREQS,
      sources = [], roomGains = [], edges = []\<rparr>"

definition example_engine :: engine where
  "example_engine = loadFile example_buffer (initAudio 44100 False (\<lambda>k. 1 / 2))"

text \<open>The example hook while it plays: one source reader, started and not stopped.\<close>

definition example_playing :: engine where
  "example_playing = (case play example_controls example_engine of Inr s \<Rightarrow> s | Inl e \<Rightarrow> example_engine)"



text \<open>
  A window of length zero at 6 percent, and the example hook when the clock of the
  context reads 0.08417233560090703, the double for 29 render quanta of 128 frames at
  44.1 kHz.
\<close>

definition zero_window_controls :: controls where
  "zero_window_controls = example_controls\<lparr>cutStart := 6, cutEnd := 6\<rparr>"


text \<open>Controls with the booster on and \<open>mastered\<close> set without \<open>beautify\<close>.\<close>

definition parity_controls :: controls where
  "parity_controls = example_controls\<lparr>booster := True, beautify := False, mastered := True\<rparr>"

text \<open>
  A rendered stereo buffer of 45 frames, silent except for the last frame, which holds
  -0.25 in both channels.
\<close>

definition wav_example_buffer :: audio_buffer where
  "wav_example_buffer =
     \<lparr>numberOfChannels = 2, buf_length = 45, buf_sampleRate = 44100,
      channelData = [replicate 44 0 @ [- 1 / 4], replicate 44 0 @ [- 1 / 4]]\<rparr>"

text \<open>
  The 44 bytes of a canonical RIFF/WAVE header of 16-bit PCM: chunk sizes, format tag 1,
  channel count, sample rate, byte rate, block align, bits per sample.
\<close>

definition header_layout :: "audio_buffer \<Rightarrow> nat list" where
  "header_layout b =
     le_bytes 4 0x46464952
     @ le_bytes 4 (buf_length b * numberOfChannels b * 2 + 44 - 8)
     @ le_bytes 4 0x45564157
     @ le_bytes 4 0x20746d66
     @ le_bytes 4 16
     @ le_bytes 2 1
     @ le_bytes 2 (numberOfChannels b)
     @ le_bytes 4 (buf_sampleRate b)
     @ le_bytes 4 (buf_sampleRate b * 2 * numberOfChannels b)
     @ le_bytes 2 (numberOfChannels b * 2)
     @ le_bytes 2 16
     @ le_bytes 4 0x61746164
     @ le_bytes 4 (buf_length b * numberOfChannels b * 2)"

text \<open>
  The view while the header is being written: the bytes so far, then zeros, with the
  write position at the end of the bytes so far.
\<close>

definition header_state :: "nat list \<Rightarrow> nat \<Rightarrow> nat list \<times> nat" where
  "header_state h n = (h @ replicate n 0, length h)"

text \<open>
  The sample encoding as the interface description has it: clamp, scale a negative
  sample by 32768 and any other by 32767, drop the fraction.
\<close>

definition described_sample :: "real \<Rightarrow> int" where
  "described_sample v =
     (let sample = max (- 1) (min 1 v)
      in toInt32 (if sample < 0 then sample * 32768 else sample * 32767))"

text \<open>
  The comparison the specification draws between the two presets: strictly higher
  ratio and strictly lower threshold.
\<close>

definition compressor_of :: "engine \<Rightarrow> compressor_node option" where
  "compressor_of s = map_option compressorNode (audioContext s)"

definition strictly_stronger :: "compressor_node option \<Rightarrow> compressor_node option \<Rightarrow> bool" where
  "strictly_stronger m b =
     (case (m, b) of
        (Some x, Some y) \<Rightarrow> ratio y < ratio x \<and> threshold x < threshold y
      | _ \<Rightarrow> False)"

section \<open>Facts about the stages\<close>

lemma upd_source_fields [simp]:
  "gainNode (upd_source i f ctx) = gainNode ctx"
  "bassNode (upd_source i f ctx) = bassNode ctx"
  "trebleNode (upd_source i f ctx) = trebleNode ctx"
  "compressorNode (upd_source i f ctx) = compressorNode ctx"
  "eqNodes (upd_source i f ctx) = eqNodes ctx"
  "ctx_currentTime (upd_source i f ctx) = ctx_currentTime ctx"
  "reverbNode (upd_source i f ctx) = reverbNode ctx"
  "roomGains (upd_source i f ctx) = roomGains ctx"
  "edges (upd_source i f ctx) = edges ctx"
  "length (sources (upd_source i f ctx)) = length (sources ctx)"
  by (simp_all add: upd_source_def)

lemma upd_source_nth:
  "k < length (sources ctx) \<Longrightarrow> sources (upd_source k f ctx) ! k = f (sources ctx ! k)"
  by (simp add: upd_source_def)

lemma settled_ramp [simp]: "settled (linearRampToValueAtTime v t p) = v"
  by (simp add: settled_def linearRampToValueAtTime_def)

lemma settled_set_value_new [simp]: "settled (set_value v (new_param w)) = v"
  by (simp add: settled_def set_value_def new_param_def)

lemma ramp_gain_fields [simp]:
  "settled (fgain (ramp_gain v t n)) = v"
  "frequency (ramp_gain v t n) = frequency n"
  "ftype (ramp_gain v t n) = ftype n"
  "qvalue (ramp_gain v t n) = qvalue n"
  by (simp_all add: ramp_gain_def)

lemma length_updateEqBands [simp]: "length (updateEqBands c now nodes) = length nodes"
  by (simp add: updateEqBands_def)

lemma nth_updateEqBands:
  "i < length nodes \<Longrightarrow>
   updateEqBands c now nodes ! i =
     (case eqBand c i of Some v \<Rightarrow> ramp_gain ((v - 50) / 2) (now + 1 / 10) (nodes ! i)
                       | None \<Rightarrow> nodes ! i)"
  by (simp add: updateEqBands_def split: option.splits)

lemma frequency_updateEqBands [simp]:
  "map frequency (updateEqBands c now nodes) = map frequency nodes"
  by (rule nth_equalityI) (simp_all add: nth_updateEqBands split: option.splits)

lemma applyParams_fields [simp]:
  "compressorNode (applyParams c src ctx) = updateCompressor c (compressorNode ctx)"
  "eqNodes (applyParams c src ctx) = updateEqBands c (ctx_currentTime ctx) (eqNodes ctx)"
  "bassNode (applyParams c src ctx) =
     ramp_gain ((bass c - 50) / 2) (ctx_currentTime ctx + 1 / 10) (bassNode ctx)"
  "trebleNode (applyParams c src ctx) =
     ramp_gain ((treble c - 50) / 2) (ctx_currentTime ctx + 1 / 10) (trebleNode ctx)"
  "gainNode (applyParams c src ctx) =
     linearRampToValueAtTime (1 + (if booster c then 3 / 2 else 0))
       (ctx_currentTime ctx + 1 / 10) (gainNode ctx)"
  "edges (applyParams c src ctx) = edges ctx"
  "roomGains (applyParams c src ctx) = roomGains ctx"
  "reverbNode (applyParams c src ctx) = reverbNode ctx"
  "ctx_currentTime (applyParams c src ctx) = ctx_currentTime ctx"
  "length (sources (applyParams c src ctx)) = length (sources ctx)"
  by (simp_all add: applyParams_def Let_def split: option.splits)

lemma applyParams_source:
  "k < length (sources ctx) \<Longrightarrow>
   sources (applyParams c (Some k) ctx) ! k =
     (sources ctx ! k)\<lparr>detune := linearRampToValueAtTime ((pitch c - 50) * 24)
                                   (ctx_currentTime ctx + 1 / 10) (detune (sources ctx ! k))\<rparr>"
  by (simp add: applyParams_def Let_def upd_source_nth)

lemma updateParams_Some:
  "audioContext s = Some ctx \<Longrightarrow>
   audioContext (updateParams c s) = Some (applyParams c (sourceNode s) ctx)"
  by (simp add: updateParams_def)

lemma updateParams_engine_fields [simp]:
  "sourceNode (updateParams c s) = sourceNode s"
  "audioBuffer (updateParams c s) = audioBuffer s"
  "pauseTime (updateParams c s) = pauseTime s"
  "isPlaying (updateParams c s) = isPlaying s"
  "currentTime (updateParams c s) = currentTime s"
  by (simp_all add: updateParams_def split: option.splits)

text \<open>The band stages keep their centre frequencies, in order, from mounting on.\<close>

lemma frequency_createEqNode [simp]: "map (frequency \<circ> createEqNode) fs = fs"
  by (induction fs) (simp_all add: createEqNode_def)

lemma initAudio_bands:
  "\<exists>ctx. audioContext (initAudio rate susp draws) = Some ctx \<and> map frequency (eqNodes ctx) = FREQS"
  by (simp add: initAudio_def)

lemma updateParams_bands:
  "audioContext s = Some ctx \<Longrightarrow> map frequency (eqNodes ctx) = FREQS \<Longrightarrow>
   \<exists>ctx'. audioContext (updateParams c s) = Some ctx' \<and> map frequency (eqNodes ctx') = FREQS"
  by (simp add: updateParams_Some)

lemma stop_bands:
  "audioContext s = Some ctx \<Longrightarrow> map frequency (eqNodes ctx) = FREQS \<Longrightarrow>
   \<exists>ctx'. audioContext (stop s) = Some ctx' \<and> map frequency (eqNodes ctx') = FREQS"
  by (simp add: stop_def cancelAnimationFrame_def Let_def split: option.splits)

section \<open>Facts about the transport\<close>

lemma cutTime_mono: "a \<le> b \<Longrightarrow> cutTime a buf \<le> cutTime b buf"
  by (simp add: cutTime_def buf_duration_def mult_right_mono divide_right_mono)

lemma cutTime_strict: "0 < buf_duration buf \<Longrightarrow> a < b \<Longrightarrow> cutTime a buf < cutTime b buf"
  by (simp add: cutTime_def)

lemma cutTime_nonneg: "0 \<le> a \<Longrightarrow> 0 \<le> cutTime a buf"
  by (simp add: cutTime_def buf_duration_def)

lemma startOffset_window: "cs < ce \<Longrightarrow> cs \<le> startOffset p cs ce \<and> startOffset p cs ce < ce"
  by (simp add: startOffset_def Let_def)


lemma startOffset_degenerate: "ce \<le> cs \<Longrightarrow> startOffset p cs ce = cs"
  by (simp add: startOffset_def Let_def)

text \<open>
  \<open>play\<close> on a window that is not empty, from an offset that is not negative: the new
  source reader is started there and keeps running, and one poll is pending.
\<close>

lemma play_running:
  assumes ctx: "audioContext s = Some ctx" and buf: "audioBuffer s = Some buf"
    and so: "so = startOffset (pauseTime s) (cutTime (cutStart c) buf) (cutTime (cutEnd c) buf)"
    and nonneg: "0 \<le> so" and lt: "so < cutTime (cutEnd c) buf"
  shows "\<exists>s' ctx'. play c s = Inr s' \<and> audioContext s' = Some ctx'
           \<and> sourceNode s' = Some (length (sources ctx))
           \<and> length (sources ctx') = Suc (length (sources ctx))
           \<and> started (sources ctx' ! length (sources ctx)) = Some (0, so, cutTime (cutEnd c) buf - so)
           \<and> stopped (sources ctx' ! length (sources ctx)) = False
           \<and> settled (detune (sources ctx' ! length (sources ctx))) = (pitch c - 50) * 24
           \<and> startTime s' = ctx_currentTime ctx - so
           \<and> isPlaying s' = True \<and> currentTime s' = so
           \<and> eqNodes ctx' = updateEqBands c (ctx_currentTime ctx) (eqNodes ctx)
           \<and> compressorNode ctx' = updateCompressor c (compressorNode ctx)
           \<and> settled (gainNode ctx') = 1 + (if booster c then 3 / 2 else 0)
           \<and> settled (fgain (bassNode ctx')) = (bass c - 50) / 2
           \<and> settled (fgain (trebleNode ctx')) = (treble c - 50) / 2
           \<and> map settled (roomGains ctx') = map settled (roomGains ctx) @ [wetLevel c]
           \<and> edges ctx' =
               reconnectGraph (length (sources ctx)) (length (roomGains ctx)) (length (eqNodes ctx))
                 (case sourceNode s of None \<Rightarrow> edges ctx
                  | Some i \<Rightarrow> disconnect (SourceN i) (edges ctx))"
  using assms
  by (cases "sourceNode s")
     (simp_all add: play_def Let_def updateParams_def applyParams_source source_start_def
        createBufferSource_def tick_def requestAnimationFrame_def nth_append)

text \<open>
  \<open>play\<close> on an empty or inverted window: the new source reader is started with length
  0 and the first poll, still inside the call, stops the transport.
\<close>

lemma play_degenerate:
  assumes ctx: "audioContext s = Some ctx" and buf: "audioBuffer s = Some buf"
    and ge: "cutTime (cutEnd c) buf \<le> cutTime (cutStart c) buf"
    and nonneg: "0 \<le> cutTime (cutStart c) buf"
  shows "\<exists>s' ctx'. play c s = Inr s' \<and> audioContext s' = Some ctx'
           \<and> sourceNode s' = None
           \<and> started (sources ctx' ! length (sources ctx)) = Some (0, cutTime (cutStart c) buf, 0)
           \<and> stopped (sources ctx' ! length (sources ctx)) = True
           \<and> isPlaying s' = False \<and> currentTime s' = 0
           \<and> pauseTime s' = cutTime (cutStart c) buf
           \<and> frameCount s' = frameCount s
           \<and> set (frameQueue s') \<subseteq> set (frameQueue s)"
  using assms
  by (cases "sourceNode s"; cases "animationFrame s")
     (simp_all add: play_def Let_def updateParams_def applyParams_source source_start_def
        createBufferSource_def tick_def stop_def cancelAnimationFrame_def new_param_def set_value_def
        nth_append startOffset_degenerate upd_source_nth try_stop_def source_stop_def)

section \<open>Facts about the examples\<close>

lemma example_engine_eq:
  "example_engine =
     initial_engine\<lparr>audioContext := Some example_context, audioBuffer := Some example_buffer,
                    duration := 10\<rparr>"
  by (simp add: example_engine_def loadFile_def initAudio_def initial_engine_def stop_def
        example_context_def buf_duration_def example_buffer_def)

lemma example_engine_fields [simp]:
  "audioContext example_engine = Some example_context"
  "audioBuffer example_engine = Some example_buffer"
  "sourceNode example_engine = None"
  "pauseTime example_engine = 0"
  "animationFrame example_engine = None"
  by (simp_all add: example_engine_eq initial_engine_def)

lemma example_context_fields [simp]:
  "sources example_context = []"
  "ctx_currentTime example_context = 0"
  "eqNodes example_context = map createEqNode FREQS"
  "compressorNode example_context = createDynamicsCompressor"
  "edges example_context = []"
  "roomGains example_context = []"
  by (simp_all add: example_context_def)

lemma example_cutTimes [simp]:
  "cutTime 20 example_buffer = 2" "cutTime 80 example_buffer = 8"
  "cutTime 0 example_buffer = 0" "cutTime 100 example_buffer = 10"
  "buf_duration example_buffer = 10"
  by (simp_all add: cutTime_def buf_duration_def example_buffer_def)

lemma example_controls_fields [simp]:
  "cutStart example_controls = 20" "cutEnd example_controls = 80"
  "pitch example_controls = 60" "bass example_controls = 70" "treble example_controls = 30"
  "eqBands example_controls = replicate 23 (Some 50)"
  by (simp_all add: example_controls_def)

lemma example_bands: "map frequency (eqNodes example_context) = FREQS"
  by simp

lemma example_playing_facts:
  "\<exists>ctx. audioContext example_playing = Some ctx \<and> sourceNode example_playing = Some 0
     \<and> length (sources ctx) = 1 \<and> map frequency (eqNodes ctx) = FREQS"
proof -
  have so: "startOffset (pauseTime example_engine) (cutTime (cutStart example_controls) example_buffer)
              (cutTime (cutEnd example_controls) example_buffer) = 2"
    by (simp add: startOffset_def)
  show ?thesis
    using play_running[of example_engine example_context example_buffer 2 example_controls] so
    by (auto simp add: example_playing_def example_bands)
qed

section \<open>Compression presets\<close>

text \<open>
  C2, as the specification words it: with \<open>mastered\<close> set the compressor has a strictly
  higher ratio and a strictly lower threshold than with \<open>beautify\<close> alone. On the example
  hook the comparison fails: the mapper writes -20 dB for \<open>mastered\<close> and -24 dB for
  \<open>beautify\<close>, and -20 is not below -24.
\<close>

theorem mastered_not_lower_threshold:
  "\<not> strictly_stronger
        (compressor_of (updateParams (example_controls\<lparr>mastered := True\<rparr>) example_engine))
        (compressor_of (updateParams (example_controls\<lparr>beautify := True, mastered := False\<rparr>) example_engine))"
  by (simp add: strictly_stronger_def compressor_of_def updateParams_Some updateCompressor_def)

text \<open>
  C2, amended: for every control state and every mounted hook, the mapper sets ratio 20,
  threshold -20 dB and knee 30 when \<open>mastered\<close> is set, and ratio 12, threshold -24 dB and
  knee 30 when only \<open>beautify\<close> is set; so \<open>mastered\<close> has the strictly higher ratio and the
  strictly higher (less negative) threshold.
\<close>

theorem mastered_compression:
  assumes "audioContext s = Some ctx"
  shows "\<exists>m b. audioContext (updateParams (c\<lparr>mastered := True\<rparr>) s) = Some m
          \<and> audioContext (updateParams (c\<lparr>beautify := True, mastered := False\<rparr>) s) = Some b
          \<and> ratio (compressorNode m) = 20 \<and> threshold (compressorNode m) = - 20
          \<and> knee (compressorNode m) = 30
          \<and> ratio (compressorNode b) = 12 \<and> threshold (compressorNode b) = - 24
          \<and> knee (compressorNode b) = 30
          \<and> ratio (compressorNode b) < ratio (compressorNode m)
          \<and> threshold (compressorNode b) < threshold (compressorNode m)"
  using assms by (simp add: updateParams_Some updateCompressor_def)

theorem mastered_compression_witness:
  "audioContext example_engine = Some example_context
   \<and> (\<exists>m b. audioContext (updateParams (example_controls\<lparr>mastered := True\<rparr>) example_engine) = Some m
          \<and> audioContext (updateParams (example_controls\<lparr>beautify := True, mastered := False\<rparr>) example_engine) = Some b
          \<and> ratio (compressorNode m) = 20 \<and> threshold (compressorNode m) = - 20
          \<and> ratio (compressorNode b) = 12 \<and> threshold (compressorNode b) = - 24)"
  using mastered_compression[of example_engine example_context example_controls] by auto

section \<open>Mapping formulas\<close>

text \<open>
  C9: on a mounted hook whose band stages sit at \<open>FREQS\<close>, \<open>updateParams\<close> leaves the
  detune of the current source reader settling at \<open>(pitch - 50) * 24\<close> cents (0 at pitch
  50), the two shelves at \<open>(value - 50) / 2\<close> dB, and every band \<open>i\<close> below 23 with a
  defined entry at \<open>(eqBands[i] - 50) / 2\<close> dB on the stage centred at \<open>FREQS[i]\<close>.
\<close>

theorem updateParams_formulas:
  assumes "audioContext s = Some ctx" and "map frequency (eqNodes ctx) = FREQS"
  shows "\<exists>ctx'. audioContext (updateParams c s) = Some ctx'
     \<and> (\<forall>k. sourceNode s = Some k \<and> k < length (sources ctx) \<longrightarrow>
            settled (detune (sources ctx' ! k)) = (pitch c - 50) * 24
            \<and> (pitch c = 50 \<longrightarrow> settled (detune (sources ctx' ! k)) = 0))
     \<and> settled (fgain (bassNode ctx')) = (bass c - 50) / 2
     \<and> settled (fgain (trebleNode ctx')) = (treble c - 50) / 2
     \<and> length (eqNodes ctx') = 23
     \<and> (\<forall>i<23. frequency (eqNodes ctx' ! i) = FREQS ! i
            \<and> (\<forall>v. eqBand c i = Some v \<longrightarrow> settled (fgain (eqNodes ctx' ! i)) = (v - 50) / 2))"
proof -
  let ?ctx' = "applyParams c (sourceNode s) ctx"
  have c': "audioContext (updateParams c s) = Some ?ctx'"
    by (rule updateParams_Some[OF assms(1)])
  have len: "length (eqNodes ctx) = 23"
    using arg_cong[OF assms(2), of length] by (simp add: FREQS_def)
  have freq: "frequency (eqNodes ctx ! i) = FREQS ! i" if "i < 23" for i
    using that len nth_map[of i "eqNodes ctx" frequency] assms(2) by simp
  have bands: "frequency (eqNodes ?ctx' ! i) = FREQS ! i
            \<and> (\<forall>v. eqBand c i = Some v \<longrightarrow> settled (fgain (eqNodes ?ctx' ! i)) = (v - 50) / 2)"
    if "i < 23" for i
    using that len freq[OF that] by (auto simp add: nth_updateEqBands split: option.splits)
  have det: "settled (detune (sources ?ctx' ! k)) = (pitch c - 50) * 24"
    if "sourceNode s = Some k" "k < length (sources ctx)" for k
    using that by (simp add: applyParams_source)
  show ?thesis
    using c' bands det len by auto
qed

theorem updateParams_formulas_witness:
  "\<exists>ctx ctx'. audioContext example_playing = Some ctx \<and> map frequency (eqNodes ctx) = FREQS
     \<and> sourceNode example_playing = Some 0 \<and> 0 < length (sources ctx)
     \<and> eqBand example_controls 22 = Some 50
     \<and> audioContext (updateParams example_controls example_playing) = Some ctx'
     \<and> settled (detune (sources ctx' ! 0)) = 240
     \<and> settled (fgain (bassNode ctx')) = 10
     \<and> settled (fgain (trebleNode ctx')) = - 10
     \<and> frequency (eqNodes ctx' ! 22) = 3150
     \<and> settled (fgain (eqNodes ctx' ! 22)) = 0"
proof -
  obtain ctx where ctx: "audioContext example_playing = Some ctx"
      "sourceNode example_playing = Some 0" "length (sources ctx) = 1"
      "map frequency (eqNodes ctx) = FREQS"
    using example_playing_facts by blast
  have band: "eqBand example_controls 22 = Some 50"
    by (simp add: eqBand_def)
  have f22: "FREQS ! 22 = 3150"
    by (simp add: FREQS_def)
  obtain ctx' where ctx': "audioContext (updateParams example_controls example_playing) = Some ctx'"
      "\<forall>k. sourceNode example_playing = Some k \<and> k < length (sources ctx) \<longrightarrow>
            settled (detune (sources ctx' ! k)) = (pitch example_controls - 50) * 24
            \<and> (pitch example_controls = 50 \<longrightarrow> settled (detune (sources ctx' ! k)) = 0)"
      "settled (fgain (bassNode ctx')) = (bass example_controls - 50) / 2"
      "settled (fgain (trebleNode ctx')) = (treble example_controls - 50) / 2"
      "\<forall>i<23. frequency (eqNodes ctx' ! i) = FREQS ! i
            \<and> (\<forall>v. eqBand example_controls i = Some v \<longrightarrow>
                  settled (fgain (eqNodes ctx' ! i)) = (v - 50) / 2)"
    using updateParams_formulas[OF ctx(1) ctx(4), of example_controls] by blast
  have "settled (detune (sources ctx' ! 0)) = 240"
    using ctx'(2) ctx(2,3) by simp
  moreover have "frequency (eqNodes ctx' ! 22) = 3150 \<and> settled (fgain (eqNodes ctx' ! 22)) = 0"
    using ctx'(5)[rule_format, of 22] band f22 by simp
  moreover have "0 < length (sources ctx)"
    using ctx(3) by simp
  ultimately show ?thesis
    using ctx(1,2,4) ctx'(1,3,4) band by simp
qed



section \<open>Transport\<close>

text \<open>
  C6: \<open>stop\<close> cannot fail (the halt of the source reader sits in a \<open>try\<close>), and a
  second call changes nothing: the state after two calls is the state after one, with
  no source reader, not playing, current time 0 and resume position 0.
\<close>

theorem stop_idempotent:
  "stop (stop s) = stop s \<and> sourceNode (stop s) = None \<and> isPlaying (stop s) = False
   \<and> currentTime (stop s) = 0 \<and> pauseTime (stop s) = 0"
  by (simp add: stop_def cancelAnimationFrame_def Let_def split: option.splits)

text \<open>
  C7: with no source loaded, \<open>play\<close> returns the state it was given and \<open>exportAudio\<close>
  returns \<open>null\<close>; neither fails.
\<close>

theorem no_source_noop:
  "audioBuffer s = None \<Longrightarrow> play c s = Inr s \<and> exportAudio c s draws = Inr None"
  by (simp add: play_def exportAudio_def split: option.splits)

theorem no_source_noop_witness:
  "audioBuffer (initAudio 44100 False (\<lambda>k. 1 / 2)) = None
   \<and> play example_controls (initAudio 44100 False (\<lambda>k. 1 / 2)) = Inr (initAudio 44100 False (\<lambda>k. 1 / 2))
   \<and> exportAudio example_controls (initAudio 44100 False (\<lambda>k. 1 / 2)) (\<lambda>k. 1 / 2) = Inr None"
proof -
  have h: "audioBuffer (initAudio 44100 False (\<lambda>k. 1 / 2)) = None"
    by (simp add: initAudio_def initial_engine_def)
  show ?thesis
    using h no_source_noop[OF h, of example_controls "\<lambda>k. 1 / 2"] by simp
qed



text \<open>
  In exact arithmetic, and for every window that is strictly inverted: on a mounted
  hook with a source loaded and \<open>cutStart\<close> not negative, \<open>play\<close> does not fail;
  the start offset is \<open>cutStartTime\<close>, the length handed to the source reader is
  \<open>max 0 (cutEndTime - startOffset) = 0\<close>, and the first poll halts and drops the reader
  inside the same call.
\<close>

lemma play_inverted_window:
  assumes "audioContext s = Some ctx" and "audioBuffer s = Some buf"
    and "cutEnd c < cutStart c" and "0 \<le> cutStart c"
  shows "\<exists>s' ctx'. play c s = Inr s' \<and> audioContext s' = Some ctx'
     \<and> startOffset (pauseTime s) (cutTime (cutStart c) buf) (cutTime (cutEnd c) buf)
         = cutTime (cutStart c) buf
     \<and> max 0 (cutTime (cutEnd c) buf - cutTime (cutStart c) buf) = 0
     \<and> started (sources ctx' ! length (sources ctx)) = Some (0, cutTime (cutStart c) buf, 0)
     \<and> stopped (sources ctx' ! length (sources ctx)) = True
     \<and> sourceNode s' = None \<and> isPlaying s' = False \<and> currentTime s' = 0
     \<and> pauseTime s' = cutTime (cutStart c) buf
     \<and> frameCount s' = frameCount s \<and> set (frameQueue s') \<subseteq> set (frameQueue s)"
proof -
  have ge: "cutTime (cutEnd c) buf \<le> cutTime (cutStart c) buf"
    by (rule cutTime_mono[OF less_imp_le[OF assms(3)]])
  have nonneg: "0 \<le> cutTime (cutStart c) buf"
    by (rule cutTime_nonneg[OF assms(4)])
  show ?thesis
    using play_degenerate[OF assms(1) assms(2) ge nonneg] ge
    by (auto simp add: startOffset_degenerate)
qed

subsection \<open>The empty window in double precision\<close>

lemma pow2_powr: "pow2 e = 2 powr (of_int e)"
  by (simp add: pow2_def powr_int)

lemma pow2_le_iff: "pow2 a \<le> pow2 b \<longleftrightarrow> a \<le> b"
  by (simp add: pow2_powr)

lemma pow2_pos: "0 < pow2 e"
  by (simp add: pow2_def)

lemma find_exponent_eq:
  "e \<le> e0 \<Longrightarrow> e0 - int n \<le> e \<Longrightarrow> pow2 e \<le> a \<Longrightarrow> a < pow2 (e + 1) \<Longrightarrow>
   find_exponent n e0 a = e"
proof (induction n arbitrary: e0)
  case 0
  then show ?case by simp
next
  case (Suc n)
  show ?case
  proof (cases "pow2 e0 \<le> a")
    case True
    then have "pow2 e0 < pow2 (e + 1)"
      using Suc.prems(4) by linarith
    then have "e0 < e + 1"
      using pow2_le_iff[of "e + 1" e0] by (simp add: not_le[symmetric])
    then show ?thesis
      using True Suc.prems(1) by simp
  next
    case False
    then have "e0 \<noteq> e"
      using Suc.prems(3) by auto
    then have "e \<le> e0 - 1" "e0 - 1 - int n \<le> e"
      using Suc.prems(1,2) by simp_all
    then show ?thesis
      using False Suc.IH[of "e0 - 1"] Suc.prems(3,4) by simp
  qed
qed

lemma binade_eq:
  "pow2 e \<le> \<bar>x\<bar> \<Longrightarrow> \<bar>x\<bar> < pow2 (e + 1) \<Longrightarrow> - 1022 \<le> e \<Longrightarrow> e \<le> 1023 \<Longrightarrow> binade x = e"
  unfolding binade_def by (rule find_exponent_eq) simp_all

text \<open>Once the binade of a number is known, rounding it is integer arithmetic.\<close>

lemma round_double_eval:
  "pow2 e \<le> \<bar>x\<bar> \<Longrightarrow> \<bar>x\<bar> < pow2 (e + 1) \<Longrightarrow> - 1022 \<le> e \<Longrightarrow> e \<le> 1023 \<Longrightarrow>
   round_double x = of_int (round_even (x / pow2 (e - 52))) * pow2 (e - 52)"
  by (simp add: round_double_def Let_def binade_eq)

lemma round_double_0 [simp]: "round_double 0 = 0"
  by (simp add: round_double_def round_even_def Let_def)

lemma round_even_nonneg: "0 \<le> q \<Longrightarrow> 0 \<le> round_even q"
  by (simp add: round_even_def Let_def)

lemma round_double_nonneg: "0 \<le> x \<Longrightarrow> 0 \<le> round_double x"
  using pow2_pos[of "binade x - 52"]
  by (simp add: round_double_def Let_def round_even_nonneg)

lemma cutTime_double_nonneg: "0 \<le> p \<Longrightarrow> 0 \<le> cutTime_double p buf"
  unfolding cutTime_double_def buf_duration_double_def
  by (intro round_double_nonneg mult_nonneg_nonneg) simp_all

text \<open>
  In double precision, for every window of length zero: \<open>play_double\<close> does not fail and
  starts the reader with length 0; whether the first poll stops the transport is
  decided by the rounded clock difference.
\<close>

lemma play_double_equal_window:
  assumes ctx: "audioContext s = Some ctx" and buf: "audioBuffer s = Some buf"
    and eq: "cutEnd c = cutStart c" and nonneg: "0 \<le> cutStart c"
  shows "\<exists>s' ctx'. play_double c s = Inr s' \<and> audioContext s' = Some ctx'
     \<and> started (sources ctx' ! length (sources ctx)) = Some (0, cutTime_double (cutStart c) buf, 0)
     \<and> (if cutTime_double (cutStart c) buf
             \<le> round_double (ctx_currentTime ctx
                   - round_double (ctx_currentTime ctx - cutTime_double (cutStart c) buf))
         then sourceNode s' = None \<and> isPlaying s' = False
              \<and> stopped (sources ctx' ! length (sources ctx)) = True
         else sourceNode s' = Some (length (sources ctx)) \<and> isPlaying s' = True
              \<and> stopped (sources ctx' ! length (sources ctx)) = False
              \<and> animationFrame s' = Some (Suc (frameCount s)))"
  using assms cutTime_double_nonneg[OF nonneg, of buf]
  by (cases "sourceNode s"; cases "animationFrame s")
     (simp_all add: play_double_def Let_def updateParams_def applyParams_source source_start_def
        createBufferSource_def tick_double_def stop_def cancelAnimationFrame_def
        requestAnimationFrame_def nth_append startOffset_degenerate upd_source_nth try_stop_def
        source_stop_def)

text \<open>The roundings at 6 percent of ten seconds and at the clock of \<open>rounding_engine\<close>.\<close>

lemma round_double_10: "round_double 10 = 10"
proof -
  have "round_double 10 = of_int (round_even (10 / pow2 (3 - 52))) * pow2 (3 - 52)"
    by (rule round_double_eval) (simp_all add: pow2_def)
  also have "\<dots> = 10"
    by (simp add: pow2_def round_even_def Let_def)
  finally show ?thesis .
qed

lemma round_double_percent: "round_double (3 / 50) = 1080863910568919 / 18014398509481984"
proof -
  have "round_double (3 / 50) = of_int (round_even ((3 / 50) / pow2 (- 5 - 52))) * pow2 (- 5 - 52)"
    by (rule round_double_eval) (simp_all add: pow2_def)
  also have "\<dots> = 1080863910568919 / 18014398509481984"
    by (simp add: pow2_def round_even_def Let_def)
  finally show ?thesis .
qed

lemma round_double_cut:
  "round_double (5404319552844595 / 9007199254740992) = 5404319552844595 / 9007199254740992"
proof -
  let ?x = "5404319552844595 / 9007199254740992 :: real"
  have "round_double ?x = of_int (round_even (?x / pow2 (- 1 - 52))) * pow2 (- 1 - 52)"
    by (rule round_double_eval) (simp_all add: pow2_def)
  also have "\<dots> = ?x"
    by (simp add: pow2_def round_even_def Let_def)
  finally show ?thesis .
qed

lemma round_double_neg_cut:
  "round_double (- (5404319552844595 / 9007199254740992)) = - (5404319552844595 / 9007199254740992)"
proof -
  let ?x = "- (5404319552844595 / 9007199254740992) :: real"
  have "round_double ?x = of_int (round_even (?x / pow2 (- 1 - 52))) * pow2 (- 1 - 52)"
    by (rule round_double_eval) (simp_all add: pow2_def)
  also have "\<dots> = ?x"
    by (simp add: pow2_def round_even_def Let_def)
  finally show ?thesis .
qed



lemma zero_window_cut:
  "cutTime_double 6 example_buffer = 5404319552844595 / 9007199254740992"
proof -
  have dur: "buf_duration_double example_buffer = 10"
    by (simp add: buf_duration_double_def example_buffer_def round_double_10)
  have "round_double (6 / 100) * 10 = (5404319552844595 / 9007199254740992 :: real)"
    by (simp add: round_double_percent)
  then show ?thesis
    unfolding cutTime_double_def dur by (simp only: round_double_cut)
qed

text \<open>With the clock at 0 the same window does stop inside the call.\<close>

lemma play_double_zero_window_at_clock_0:
  "\<exists>s'. play_double zero_window_controls example_engine = Inr s'
     \<and> sourceNode s' = None \<and> isPlaying s' = False"
proof -
  have c: "cutStart zero_window_controls = 6" "cutEnd zero_window_controls = 6"
    by (simp_all add: zero_window_controls_def)
  show ?thesis
    using play_double_equal_window[of example_engine example_context example_buffer zero_window_controls]
    by (auto simp add: c zero_window_cut round_double_neg_cut round_double_cut)
qed



lemma set_connect: "set (connect a b es) = insert (a, b) (set es)"
  by (auto simp add: connect_def)

lemma chain_mono: "e \<in> set es \<Longrightarrow> e \<in> set (snd (chain l ns es))"
  by (induction ns arbitrary: l es) (simp_all add: set_connect)

text \<open>In the graph \<open>play\<close> wires, the source reader feeds the first band stage.\<close>

lemma reconnectGraph_source_feeds_band:
  assumes "0 < m"
  shows "(SourceN k, EqN 0) \<in> set (reconnectGraph k r m es)"
proof -
  have "map EqN [0..<m] = EqN 0 # map EqN [Suc 0..<m]"
    using assms by (simp add: upt_conv_Cons)
  then show ?thesis
    unfolding reconnectGraph_def Let_def
    by (simp add: split_beta set_connect chain_mono)
qed

lemma exportAudio_Some:
  assumes "audioBuffer s = Some buf"
    and "1 \<le> (cutTime (cutEnd c) buf - cutTime (cutStart c) buf) * 44100"
    and "0 \<le> cutTime (cutStart c) buf"
  shows "\<exists>g. exportAudio c s draws = Inr (Some g)
     \<and> off_channels g = 2 \<and> off_sampleRate g = 44100
     \<and> off_length g = nat \<lfloor>(cutTime (cutEnd c) buf - cutTime (cutStart c) buf) * 44100\<rfloor>
     \<and> started (off_source g)
          = Some (0, cutTime (cutStart c) buf, cutTime (cutEnd c) buf - cutTime (cutStart c) buf)
     \<and> settled (detune (off_source g)) = (pitch c - 50) * 24
     \<and> settled (fgain (off_bass g)) = (bass c - 50) / 2
     \<and> settled (fgain (off_treble g)) = (treble c - 50) / 2
     \<and> off_compressor g = (if beautify c then \<lparr>threshold = - 24, knee = 30, ratio = 12\<rparr>
                            else \<lparr>threshold = 0, knee = 30, ratio = 1\<rparr>)
     \<and> off_reverb g = createReverbBuffer 44100 2 draws
     \<and> settled (off_roomGain g) = wetLevel c
     \<and> settled (off_mainGain g) = (if booster c then 3 / 2 else 1)
     \<and> off_edges g = [(SourceN 0, BassN), (BassN, TrebleN), (TrebleN, CompressorN),
                       (CompressorN, RoomGainN 0), (RoomGainN 0, ReverbN), (ReverbN, GainN),
                       (CompressorN, GainN), (GainN, DestinationN)]"
  using assms
  by (simp add: exportAudio_def Let_def source_start_def createBufferSource_def
        createBiquadFilter_def createDynamicsCompressor_def connect_def)

section \<open>Realtime and offline graph\<close>

text \<open>
  What the two paths do share, for a window of at least one output frame: detune, the
  two shelf gains and the wet level; threshold and ratio when \<open>mastered\<close> is off; the
  master gain when the booster is off.
\<close>

lemma export_agrees_in_part:
  assumes "audioContext s = Some ctx" and "audioBuffer s = Some buf"
    and "0 \<le> cutStart c" and "0 < buf_duration buf" and "cutStart c < cutEnd c"
    and "1 \<le> (cutTime (cutEnd c) buf - cutTime (cutStart c) buf) * 44100"
  shows "\<exists>s' ctx' g. play c s = Inr s' \<and> audioContext s' = Some ctx'
     \<and> exportAudio c s draws = Inr (Some g)
     \<and> settled (detune (sources ctx' ! length (sources ctx))) = settled (detune (off_source g))
     \<and> settled (fgain (bassNode ctx')) = settled (fgain (off_bass g))
     \<and> settled (fgain (trebleNode ctx')) = settled (fgain (off_treble g))
     \<and> last (map settled (roomGains ctx')) = settled (off_roomGain g)
     \<and> (\<not> mastered c \<longrightarrow> threshold (compressorNode ctx') = threshold (off_compressor g)
                          \<and> ratio (compressorNode ctx') = ratio (off_compressor g))
     \<and> (\<not> booster c \<longrightarrow> settled (gainNode ctx') = settled (off_mainGain g))"
proof -
  let ?cs = "cutTime (cutStart c) buf" and ?ce = "cutTime (cutEnd c) buf"
  let ?so = "startOffset (pauseTime s) ?cs ?ce"
  have lt: "?cs < ?ce"
    by (rule cutTime_strict[OF assms(4) assms(5)])
  have win: "?cs \<le> ?so \<and> ?so < ?ce"
    by (rule startOffset_window[OF lt])
  have cs0: "0 \<le> ?cs"
    by (rule cutTime_nonneg[OF assms(3)])
  then have nonneg: "0 \<le> ?so"
    using win by linarith
  from play_running[OF assms(1) assms(2) refl nonneg] win
  obtain s' ctx' where p: "play c s = Inr s'" "audioContext s' = Some ctx'"
      "settled (detune (sources ctx' ! length (sources ctx))) = (pitch c - 50) * 24"
      "compressorNode ctx' = updateCompressor c (compressorNode ctx)"
      "settled (gainNode ctx') = 1 + (if booster c then 3 / 2 else 0)"
      "settled (fgain (bassNode ctx')) = (bass c - 50) / 2"
      "settled (fgain (trebleNode ctx')) = (treble c - 50) / 2"
      "map settled (roomGains ctx') = map settled (roomGains ctx) @ [wetLevel c]"
    by blast
  from exportAudio_Some[OF assms(2) assms(6) cs0, of draws]
  obtain g where g: "exportAudio c s draws = Inr (Some g)"
      "settled (detune (off_source g)) = (pitch c - 50) * 24"
      "settled (fgain (off_bass g)) = (bass c - 50) / 2"
      "settled (fgain (off_treble g)) = (treble c - 50) / 2"
      "off_compressor g = (if beautify c then \<lparr>threshold = - 24, knee = 30, ratio = 12\<rparr>
                            else \<lparr>threshold = 0, knee = 30, ratio = 1\<rparr>)"
      "settled (off_roomGain g) = wetLevel c"
      "settled (off_mainGain g) = (if booster c then 3 / 2 else 1)"
    by blast
  show ?thesis
    using p g by (simp add: updateCompressor_def)
qed

text \<open>
  C1, on the example hook with the booster on and \<open>mastered\<close> set without \<open>beautify\<close>:
  both paths succeed, and they disagree. The realtime master gain settles at 2.5, the
  offline one is 1.5; the realtime compressor is at -20 dB and ratio 20, the offline
  one at 0 dB and ratio 1; the realtime source reader feeds the first of the 23 band
  stages, the offline source reader feeds the bass shelf and no band stage exists.
\<close>

theorem export_differs_from_play:
  "\<exists>s' ctx g. play parity_controls example_engine = Inr s' \<and> audioContext s' = Some ctx
     \<and> exportAudio parity_controls example_engine (\<lambda>k. 1 / 2) = Inr (Some g)
     \<and> settled (gainNode ctx) = 5 / 2 \<and> settled (off_mainGain g) = 3 / 2
     \<and> compressorNode ctx = \<lparr>threshold = - 20, knee = 30, ratio = 20\<rparr>
     \<and> off_compressor g = \<lparr>threshold = 0, knee = 30, ratio = 1\<rparr>
     \<and> (SourceN 0, EqN 0) \<in> set (edges ctx)
     \<and> off_edges g = [(SourceN 0, BassN), (BassN, TrebleN), (TrebleN, CompressorN),
                       (CompressorN, RoomGainN 0), (RoomGainN 0, ReverbN), (ReverbN, GainN),
                       (CompressorN, GainN), (GainN, DestinationN)]"
proof -
  let ?c = parity_controls
  have c: "cutStart ?c = 20" "cutEnd ?c = 80" "booster ?c" "\<not> beautify ?c" "mastered ?c"
    by (simp_all add: parity_controls_def)
  have so: "startOffset (pauseTime example_engine) (cutTime (cutStart ?c) example_buffer)
              (cutTime (cutEnd ?c) example_buffer) = 2"
    by (simp add: c startOffset_def)
  from play_running[of example_engine example_context example_buffer 2 ?c]
  obtain s' ctx where p: "play ?c example_engine = Inr s'" "audioContext s' = Some ctx"
      "compressorNode ctx = updateCompressor ?c (compressorNode example_context)"
      "settled (gainNode ctx) = 1 + (if booster ?c then 3 / 2 else 0)"
      "edges ctx = reconnectGraph (length (sources example_context))
                     (length (roomGains example_context)) (length (eqNodes example_context))
                     (case sourceNode example_engine of None \<Rightarrow> edges example_context
                      | Some i \<Rightarrow> disconnect (SourceN i) (edges example_context))"
    using so by (auto simp add: c)
  from exportAudio_Some[of example_engine example_buffer ?c "\<lambda>k. 1 / 2"]
  obtain g where g: "exportAudio ?c example_engine (\<lambda>k. 1 / 2) = Inr (Some g)"
      "off_compressor g = (if beautify ?c then \<lparr>threshold = - 24, knee = 30, ratio = 12\<rparr>
                            else \<lparr>threshold = 0, knee = 30, ratio = 1\<rparr>)"
      "settled (off_mainGain g) = (if booster ?c then 3 / 2 else 1)"
      "off_edges g = [(SourceN 0, BassN), (BassN, TrebleN), (TrebleN, CompressorN),
                       (CompressorN, RoomGainN 0), (RoomGainN 0, ReverbN), (ReverbN, GainN),
                       (CompressorN, GainN), (GainN, DestinationN)]"
    by (auto simp add: c)
  have comp: "compressorNode ctx = \<lparr>threshold = - 20, knee = 30, ratio = 20\<rparr>"
    using p(3) by (simp add: updateCompressor_def c createDynamicsCompressor_def)
  have edge: "(SourceN 0, EqN 0) \<in> set (edges ctx)"
    using p(5) reconnectGraph_source_feeds_band[of "length (eqNodes example_context)" 0 0 "[]"]
    by (simp add: FREQS_def)
  show ?thesis
    using p(1,2,4) g comp edge by (simp add: c)
qed

section \<open>Reverb impulse and repeated export\<close>










section \<open>WAV encoder\<close>

lemma length_le_bytes [simp]: "length (le_bytes n v) = n"
  by (simp add: le_bytes_def)

lemma le_bytes_2: "le_bytes 2 v = [v mod 256, v div 256 mod 256]"
  by (simp add: le_bytes_def numeral_2_eq_2)

lemma length_header_layout [simp]: "length (header_layout b) = 44"
  by (simp add: header_layout_def)

lemma store_append:
  "length bs \<le> length rest \<Longrightarrow>
   store (length h) bs (h @ rest) = h @ bs @ drop (length bs) rest"
  by (simp add: store_def)

lemma setUint32_header_state:
  "4 \<le> n \<Longrightarrow> setUint32 d (header_state h n) = header_state (h @ le_bytes 4 d) (n - 4)"
  by (simp add: setUint32_def header_state_def store_append)

lemma setUint16_header_state:
  "2 \<le> n \<Longrightarrow> setUint16 d (header_state h n) = header_state (h @ le_bytes 2 d) (n - 2)"
  by (simp add: setUint16_def header_state_def store_append)

lemma snd_header_state: "snd (header_state h n) = length h"
  by (simp add: header_state_def)

text \<open>The thirteen header writes fill the first 44 bytes and leave \<open>pos\<close> at 44.\<close>

lemma wav_header_bytes:
  "wav_header b (replicate (buf_length b * numberOfChannels b * 2 + 44) 0, 0)
     = (header_layout b @ replicate (buf_length b * numberOfChannels b * 2) 0, 44)"
proof -
  let ?n = "buf_length b * numberOfChannels b * 2"
  have start: "(replicate (?n + 44) 0, 0) = header_state [] (?n + 44)"
    by (simp add: header_state_def)
  have "wav_header b (header_state [] (?n + 44)) = header_state (header_layout b) ?n"
    unfolding wav_header_def Let_def
    by (simp add: setUint32_header_state setUint16_header_state snd_header_state header_layout_def)
  then show ?thesis
    unfolding start by (simp add: header_state_def)
qed

text \<open>The sample loop writes from byte 44 on, so it leaves the header alone.\<close>

lemma take_store:
  "q \<le> p \<Longrightarrow> q \<le> length view \<Longrightarrow>
   take q (store p bs view) = take q view \<and> q \<le> length (store p bs view)"
  by (simp add: store_def min_def)

lemma encode_frame_prefix_aux:
  "44 \<le> length (fst vo) \<Longrightarrow>
   take 44 (fst (fold (\<lambda>i (view, offset).
        (setInt16 (44 + offset) (encode_sample (sample_at b i pos)) view, offset + 2)) cs vo))
     = take 44 (fst vo)
   \<and> 44 \<le> length (fst (fold (\<lambda>i (view, offset).
        (setInt16 (44 + offset) (encode_sample (sample_at b i pos)) view, offset + 2)) cs vo))"
proof (induction cs arbitrary: vo)
  case Nil
  then show ?case by simp
next
  case (Cons c cs)
  obtain view offset where vo: "vo = (view, offset)"
    by (cases vo)
  let ?view' = "setInt16 (44 + offset) (encode_sample (sample_at b c pos)) view"
  have step: "take 44 ?view' = take 44 view \<and> 44 \<le> length ?view'"
    using Cons.prems take_store[of 44 "44 + offset" view]
    by (simp add: setInt16_def vo)
  show ?case
    using Cons.IH[of "(?view', offset + 2)"] step by (simp add: vo)
qed

lemma encode_frame_prefix:
  "44 \<le> length (fst vo) \<Longrightarrow>
   take 44 (fst (encode_frame b pos vo)) = take 44 (fst vo)
   \<and> 44 \<le> length (fst (encode_frame b pos vo))"
  unfolding encode_frame_def by (rule encode_frame_prefix_aux)

lemma encode_frames_prefix:
  "44 \<le> length (fst vo) \<Longrightarrow> take 44 (encode_frames b pos vo) = take 44 (fst vo)"
proof (induction b pos vo rule: encode_frames.induct)
  case (1 b pos vo)
  show ?case
  proof (cases "pos < buf_length b")
    case True
    have "take 44 (encode_frames b (pos + 1) (encode_frame b pos vo))
            = take 44 (fst (encode_frame b pos vo))"
      using "1.IH"[OF True] encode_frame_prefix[OF "1.prems"] by blast
    then show ?thesis
      using True encode_frame_prefix[OF "1.prems", of b pos]
      by (subst encode_frames.simps) simp
  next
    case False
    then show ?thesis
      by (subst encode_frames.simps) simp
  qed
qed

text \<open>
  The container part of C4 holds for every buffer: the file starts with the canonical
  header, with format tag 1, 16 bits per sample, block align \<open>channels * 2\<close> and byte
  rate \<open>sampleRate * channels * 2\<close>.
\<close>

lemma wav_header_layout: "take 44 (audioBufferToWav b) = header_layout b"
  using encode_frames_prefix[of "(header_layout b @ replicate (buf_length b * numberOfChannels b * 2) 0, 0)" b 44]
  by (simp add: audioBufferToWav_def Let_def wav_header_bytes)

lemma header_fields:
  "take 2 (drop 20 (header_layout b)) = le_bytes 2 1"
  "take 2 (drop 22 (header_layout b)) = le_bytes 2 (numberOfChannels b)"
  "take 4 (drop 24 (header_layout b)) = le_bytes 4 (buf_sampleRate b)"
  "take 4 (drop 28 (header_layout b)) = le_bytes 4 (buf_sampleRate b * 2 * numberOfChannels b)"
  "take 2 (drop 32 (header_layout b)) = le_bytes 2 (numberOfChannels b * 2)"
  "take 2 (drop 34 (header_layout b)) = le_bytes 2 16"
  by (simp_all add: header_layout_def)

text \<open>
  The encoder's test is \<open>0.5 + sample < 0\<close>, so it agrees with the described encoding
  except on samples from -0.5 up to, not including, 0.
\<close>

lemma encode_sample_outside:
  "v < - (1 / 2) \<or> 0 \<le> v \<Longrightarrow> encode_sample (Some v) = described_sample v"
  by (auto simp add: encode_sample_def described_sample_def Let_def max_def min_def)

lemma encode_quarter: "encode_sample (Some (- (1 / 4))) = - 8191"
  by (simp add: encode_sample_def toInt32_def Let_def)

lemma described_quarter: "described_sample (- (1 / 4)) = - 8192"
  by (simp add: described_sample_def toInt32_def Let_def)

lemma setInt16_quarter: "setInt16 p (- 8191) view = store p [1, 224] view"
  by (simp add: setInt16_def le_bytes_2)

lemma wav_example_samples:
  "sample_at wav_example_buffer 0 0 = Some 0"
  "sample_at wav_example_buffer 0 44 = Some (- (1 / 4))"
  "sample_at wav_example_buffer (Suc 0) 44 = Some (- (1 / 4))"
  by (simp_all add: sample_at_def wav_example_buffer_def nth_append)

text \<open>
  C4, on a stereo buffer of 45 frames whose last frame holds -0.25: the encoder turns
  -0.25 into -8191 (bytes 01 E0), where clamping and scaling a negative sample by
  32768 gives -8192 (bytes 00 E0). The sample loop starts counting frames at 44, the
  position the header writes left behind, so the data chunk begins with frame 44 and
  the first 44 frames are never encoded: the four bytes of frame 44 come first and
  176 zero bytes follow.
\<close>

theorem wav_quarter_sample:
  "sample_at wav_example_buffer 0 44 = Some (- (1 / 4))
   \<and> encode_sample (Some (- (1 / 4))) = - 8191
   \<and> described_sample (- (1 / 4)) = - 8192
   \<and> drop 44 (audioBufferToWav wav_example_buffer) = [1, 224, 1, 224] @ replicate 176 0"
proof -
  let ?b = wav_example_buffer
  let ?v0 = "header_layout ?b @ replicate 180 0"
  have f: "numberOfChannels ?b = 2" "buf_length ?b = 45"
    by (simp_all add: wav_example_buffer_def)
  have hdr: "wav_header ?b (replicate 224 0, 0) = (?v0, 44)"
    using wav_header_bytes[of ?b] by (simp add: f)
  have frame: "encode_frame ?b 44 (?v0, 0)
                 = (header_layout ?b @ [1, 224, 1, 224] @ replicate 176 0, 4)"
    by (simp add: encode_frame_def f upt_rec wav_example_samples encode_quarter
          setInt16_quarter store_def)
  have loop: "encode_frames ?b 44 (?v0, 0) = fst (encode_frame ?b 44 (?v0, 0))"
    by (simp add: encode_frames.simps[of ?b 44] encode_frames.simps[of ?b 45] f)
  have "audioBufferToWav ?b = header_layout ?b @ [1, 224, 1, 224] @ replicate 176 0"
    by (simp add: audioBufferToWav_def Let_def f hdr loop frame)
  then show ?thesis
    by (simp add: wav_example_samples encode_quarter described_quarter)
qed

end
